theory Spec2Isabelle
  imports Main
begin

section \<open>JavaScript values read and written by the node view\<close>

text \<open>
  A document position as the component sees it: the result of \<^verbatim>\<open>getPos()\<close> has the
  TypeScript type \<^verbatim>\<open>number | undefined\<close>, and \<^verbatim>\<open>undefined + n\<close> is \<^verbatim>\<open>NaN\<close>.
\<close>

datatype jsnum = Undefined | NaN | Num int

text \<open>\<^verbatim>\<open>pos + n\<close> for a numeric \<open>n\<close>.\<close>

fun js_plus :: "jsnum \<Rightarrow> int \<Rightarrow> jsnum" where
  "js_plus (Num a) b = Num (a + b)"
| "js_plus Undefined b = NaN"
| "js_plus NaN b = NaN"

text \<open>\<^verbatim>\<open>a >= b\<close> for a numeric \<open>b\<close>: false as soon as \<open>a\<close> is not a number.\<close>

fun js_ge :: "jsnum \<Rightarrow> int \<Rightarrow> bool" where
  "js_ge (Num a) b = (b \<le> a)"
| "js_ge Undefined b = False"
| "js_ge NaN b = False"

text \<open>Attribute values of a node (\<^verbatim>\<open>node.attrs\<close> is untyped).\<close>

datatype js_value = JUndefined | JNull | JBool bool | JNumber int | JNaN | JStr string

fun truthy :: "js_value \<Rightarrow> bool" where
  "truthy JUndefined = False"
| "truthy JNull = False"
| "truthy (JBool b) = b"
| "truthy (JNumber n) = (n \<noteq> 0)"
| "truthy JNaN = False"
| "truthy (JStr s) = (s \<noteq> [])"

text \<open>\<^verbatim>\<open>a || b\<close>.\<close>

definition js_or :: "js_value \<Rightarrow> js_value \<Rightarrow> js_value" where
  "js_or a b = (if truthy a then a else b)"

text \<open>\<^verbatim>\<open>!value\<close> for \<^verbatim>\<open>value: string | undefined\<close>.\<close>

fun falsy_value :: "string option \<Rightarrow> bool" where
  "falsy_value None = True"
| "falsy_value (Some s) = (s = [])"

section \<open>The document model, as far as the component touches it\<close>

type_synonym attrs = "(string \<times> js_value) list"

datatype mark = Mark string attrs

text \<open>
  A node read from the document. \<open>nodeSize\<close> and \<open>textContent\<close> are computed by the
  document library; the component only reads them.
\<close>

record pm_node =
  type_name :: string
  node_attrs :: attrs
  node_marks :: "mark list"
  textContent :: string
  nodeSize :: int

text \<open>\<^verbatim>\<open>node.attrs.language\<close>: a missing property reads as \<^verbatim>\<open>undefined\<close>.\<close>

definition attr :: "attrs \<Rightarrow> string \<Rightarrow> js_value" where
  "attr as k = (case map_of as k of None \<Rightarrow> JUndefined | Some v \<Rightarrow> v)"

text \<open>
  A node the component asks the schema to build:
  \<^verbatim>\<open>schema.nodes[name].create(attrs, content, marks)\<close> with its optional arguments, or
  \<^verbatim>\<open>schema.nodeFromJSON({ type: 'text', text })\<close>.
\<close>

datatype new_node =
    NodeCreate string "attrs option" "new_node option" "mark list option"
  | TextFromJSON string

text \<open>The steps a transaction collects before it is dispatched.\<close>

datatype step =
    Insert jsnum new_node
  | Delete jsnum jsnum
  | ReplaceWith jsnum jsnum new_node

type_synonym transaction = "step list"

text \<open>The editor state the component reads: \<^verbatim>\<open>doc.nodeAt\<close> and \<^verbatim>\<open>doc.content.size\<close>.\<close>

record editor_state =
  nodeAt :: "jsnum \<Rightarrow> pm_node option"
  docSize :: int

text \<open>
  \<^verbatim>\<open>getPos\<close> is guarded by \<^verbatim>\<open>typeof getPos === 'function'\<close>; when it is a function,
  calling it gives a position or \<^verbatim>\<open>undefined\<close>.
\<close>

datatype getPos_prop = NotFunction | Function jsnum

record props =
  node :: pm_node
  getPos :: getPos_prop
  selected :: bool

section \<open>The code editing widget\<close>

record position =
  lineNumber :: int
  column :: int

record text_model =
  getLineCount :: int
  getLineMaxColumn :: "int \<Rightarrow> int"

record code_editor =
  getModel :: "text_model option"
  getPosition :: "position option"

datatype keycode = DownArrow | UpArrow | LeftArrow | RightArrow | OtherKey nat

section \<open>Refs and effects\<close>

text \<open>
  The refs of the component. \<open>monacoInstance\<close> tells whether
  \<^verbatim>\<open>monacoInstance.current\<close> holds the mounted editor.
\<close>

record refs =
  monacoInstance :: bool
  isUpdatingRef :: bool
  initialContentRef :: string

datatype callback = ResetIsUpdating | FocusEditorInstance

datatype js_error = RangeError

text \<open>
  Every call the handlers make on their collaborators, in program order. \<open>Throw\<close> ends
  a run: the exception leaves the handler uncaught.
\<close>

datatype effect =
    PreventDefault
  | StopPropagation
  | Dispatch transaction
  | Focus jsnum
  | SetPosition position
  | UpdateAttributes attrs
  | ConsoleError string
  | SetTimeout callback nat
  | Throw js_error

text \<open>The transactions a run of a handler dispatched.\<close>

fun dispatched :: "effect list \<Rightarrow> transaction list" where
  "dispatched [] = []"
| "dispatched (Dispatch tr # es) = tr # dispatched es"
| "dispatched (e # es) = dispatched es"

text \<open>
  The document after a run of a handler, for any meaning \<open>app\<close> the document library
  gives to a dispatched transaction.
\<close>

definition doc_after :: "(transaction \<Rightarrow> 'd \<Rightarrow> 'd) \<Rightarrow> effect list \<Rightarrow> 'd \<Rightarrow> 'd" where
  "doc_after app es d = fold app (dispatched es) d"

section \<open>Language selection and rendering\<close>

datatype ProgrammingLanguage =
    Javascript | Typescript | Html | Css | Json | Python | Java
  | Csharp | Php | Ruby | Go | Rust | Shell

fun lang_string :: "ProgrammingLanguage \<Rightarrow> string" where
  "lang_string Javascript = ''javascript''"
| "lang_string Typescript = ''typescript''"
| "lang_string Html = ''html''"
| "lang_string Css = ''css''"
| "lang_string Json = ''json''"
| "lang_string Python = ''python''"
| "lang_string Java = ''java''"
| "lang_string Csharp = ''csharp''"
| "lang_string Php = ''php''"
| "lang_string Ruby = ''ruby''"
| "lang_string Go = ''go''"
| "lang_string Rust = ''rust''"
| "lang_string Shell = ''shell''"

definition languages :: "ProgrammingLanguage list" where
  "languages =
     [Javascript, Typescript, Html, Css, Json, Python, Java,
      Csharp, Php, Ruby, Go, Rust, Shell]"

text \<open>\<^verbatim>\<open>const language = node.attrs.language || 'javascript'\<close>.\<close>

definition language :: "props \<Rightarrow> js_value" where
  "language p = js_or (attr (node_attrs (node p)) ''language'') (JStr ''javascript'')"

record html_option =
  opt_key :: string
  opt_value :: string
  opt_label :: string

text \<open>The parts of the rendered tree that depend on the props.\<close>

record rendered =
  select_value :: js_value
  select_options :: "html_option list"
  editor_defaultLanguage :: js_value
  editor_language :: js_value
  editor_value :: string

definition render :: "props \<Rightarrow> rendered" where
  "render p =
     \<lparr> select_value = language p,
       select_options =
         map (\<lambda>lang. \<lparr> opt_key = lang_string lang, opt_value = lang_string lang,
                        opt_label = lang_string lang \<rparr>) languages,
       editor_defaultLanguage = language p,
       editor_language = language p,
       editor_value = textContent (node p) \<rparr>"

text \<open>\<^verbatim>\<open>onLanguageChange\<close>, given \<^verbatim>\<open>e.target.value\<close>.\<close>

definition onLanguageChange :: "string \<Rightarrow> effect list" where
  "onLanguageChange v = [UpdateAttributes [(''language'', JStr v)]]"

section \<open>Inserting and deleting around the block\<close>

definition paragraph_create :: new_node where
  "paragraph_create = NodeCreate ''paragraph'' None None None"

definition insertNodeBefore :: "props \<Rightarrow> effect list" where
  "insertNodeBefore p =
     (case getPos p of
        NotFunction \<Rightarrow> []
      | Function pos \<Rightarrow>
          if pos = Undefined then []
          else [Dispatch [Insert pos paragraph_create], Focus pos])"

text \<open>
  \<^verbatim>\<open>tr.insert(pos, node)\<close> resolves \<open>pos\<close> in the document; the document library raises a
  RangeError for a position that is not between 0 and \<^verbatim>\<open>doc.content.size\<close>.
\<close>

definition in_range :: "editor_state \<Rightarrow> jsnum \<Rightarrow> bool" where
  "in_range ed pos = (case pos of Num n \<Rightarrow> 0 \<le> n \<and> n \<le> docSize ed | _ \<Rightarrow> False)"

text \<open>
  \<open>insertNodeAfter\<close> is a \<^verbatim>\<open>useCallback\<close> closure over \<^verbatim>\<open>node.nodeSize\<close>: \<open>p\<close> holds
  the node of the render that made the closure, and \<open>getPos\<close> as it answers when the
  closure runs.
\<close>

definition insertNodeAfter :: "editor_state \<Rightarrow> props \<Rightarrow> effect list" where
  "insertNodeAfter ed p =
     (case getPos p of
        NotFunction \<Rightarrow> []
      | Function pos \<Rightarrow>
          if pos = Undefined then []
          else
            let endPos = js_plus pos (nodeSize (node p))
            in if in_range ed endPos
               then [Dispatch [Insert endPos paragraph_create], Focus (js_plus endPos 1)]
               else [Throw RangeError])"

definition handleDelete :: "props \<Rightarrow> editor_state \<Rightarrow> effect list" where
  "handleDelete p ed =
     (case getPos p of
        NotFunction \<Rightarrow> []
      | Function pos \<Rightarrow>
          (case nodeAt ed pos of
             None \<Rightarrow> []
           | Some nodeAtPos \<Rightarrow>
               [Dispatch [Delete pos (js_plus pos (nodeSize nodeAtPos))]]))"

definition isFirstNode :: "props \<Rightarrow> bool" where
  "isFirstNode p =
     (case getPos p of
        NotFunction \<Rightarrow> False
      | Function pos \<Rightarrow> if pos = Undefined then False else pos = Num 0)"

section \<open>The update function behind the change handler\<close>

text \<open>
  The function handed to \<^verbatim>\<open>debounce\<close>. Calling \<^verbatim>\<open>getPos()\<close> when \<^verbatim>\<open>getPos\<close> is not a
  function throws a TypeError inside the \<^verbatim>\<open>try\<close>; the \<^verbatim>\<open>catch\<close> logs it. The
  \<^verbatim>\<open>finally\<close> block runs on every path that entered the \<^verbatim>\<open>try\<close>.
\<close>

definition finally_block :: "effect list" where
  "finally_block = [SetTimeout ResetIsUpdating 0]"

definition updateContent ::
  "props \<Rightarrow> editor_state \<Rightarrow> refs \<Rightarrow> string option \<Rightarrow> refs \<times> effect list" where
  "updateContent p ed r v =
     (if falsy_value v \<or> isUpdatingRef r then (r, [])
      else
        let r1 = r\<lparr>isUpdatingRef := True\<rparr>
        in (case getPos p of
              NotFunction \<Rightarrow>
                (r1, ConsoleError ''Error updating code block:'' # finally_block)
            | Function pos \<Rightarrow>
                (case nodeAt ed pos of
                   None \<Rightarrow>
                     (r1, ConsoleError ''Could not find original node'' # finally_block)
                 | Some originalNode \<Rightarrow>
                     (r1\<lparr>initialContentRef := the v\<rparr>,
                      Dispatch
                        [ReplaceWith pos (js_plus pos (nodeSize originalNode))
                           (NodeCreate (type_name originalNode)
                              (Some (node_attrs originalNode))
                              (Some (TextFromJSON (the v)))
                              (Some (node_marks originalNode)))]
                      # finally_block))))"

text \<open>The timer callback of the \<^verbatim>\<open>finally\<close> block and of the content effect.\<close>

fun run_callback :: "callback \<Rightarrow> refs \<Rightarrow> refs" where
  "run_callback ResetIsUpdating r = r\<lparr>isUpdatingRef := False\<rparr>"
| "run_callback FocusEditorInstance r = r"

section \<open>Mounting and the keydown handler\<close>

text \<open>The cursor is at the end of the last line.\<close>

definition at_end :: "text_model \<Rightarrow> position \<Rightarrow> bool" where
  "at_end model pos =
     (let lastLineNumber = getLineCount model;
          lastLineMaxColumn = getLineMaxColumn model lastLineNumber
      in lineNumber pos = lastLineNumber \<and> column pos = lastLineMaxColumn)"

text \<open>\<^verbatim>\<open>monacoInstance.current?.setPosition({ lineNumber: 1, column: 1 })\<close>.\<close>

definition reset_cursor :: "refs \<Rightarrow> effect list" where
  "reset_cursor r =
     (if monacoInstance r then [SetPosition \<lparr> lineNumber = 1, column = 1 \<rparr>] else [])"

text \<open>
  The listener is registered once, by \<^verbatim>\<open>handleEditorMount\<close>, and is never registered
  again: it keeps the \<^verbatim>\<open>node\<close> and the \<open>insertNodeAfter\<close> of the render in which the
  editor mounted. Below, \<open>p0\<close> are the props of that render and \<open>p\<close> the props when the
  key is pressed; \<^verbatim>\<open>getPos()\<close> and \<^verbatim>\<open>editor.state\<close> are read when the key is pressed.
\<close>

definition onDownArrow ::
  "props \<Rightarrow> props \<Rightarrow> editor_state \<Rightarrow> code_editor \<Rightarrow> refs \<Rightarrow> effect list" where
  "onDownArrow p0 p ed ei r =
     (case (getModel ei, getPosition ei) of
        (Some model, Some pos) \<Rightarrow>
          if at_end model pos then
            [PreventDefault, StopPropagation] @
            (case getPos p of
               NotFunction \<Rightarrow> []
             | Function gp \<Rightarrow>
                 if gp = Undefined then []
                 else
                   let endPos = js_plus gp (nodeSize (node p0))
                   in if js_ge endPos (docSize ed)
                      then insertNodeAfter ed (p\<lparr>node := node p0\<rparr>)
                      else reset_cursor r @ [Focus endPos])
          else []
      | _ \<Rightarrow> [])"

text \<open>The UpArrow and the LeftArrow branches have the same body.\<close>

definition onUpOrLeftArrow :: "props \<Rightarrow> code_editor \<Rightarrow> refs \<Rightarrow> effect list" where
  "onUpOrLeftArrow p ei r =
     (case (getModel ei, getPosition ei) of
        (Some model, Some pos) \<Rightarrow>
          if lineNumber pos = 1 \<and> column pos = 1 then
            [PreventDefault, StopPropagation] @
            (if isFirstNode p then insertNodeBefore p
             else
               (case getPos p of
                  NotFunction \<Rightarrow> []
                | Function gp \<Rightarrow>
                    reset_cursor r @ (if gp = Undefined then [] else [Focus gp])))
          else []
      | _ \<Rightarrow> [])"

definition onRightArrow :: "props \<Rightarrow> props \<Rightarrow> code_editor \<Rightarrow> refs \<Rightarrow> effect list" where
  "onRightArrow p0 p ei r =
     (case (getModel ei, getPosition ei) of
        (Some model, Some pos) \<Rightarrow>
          if at_end model pos then
            [PreventDefault, StopPropagation] @
            (case getPos p of
               NotFunction \<Rightarrow> []
             | Function gp \<Rightarrow>
                 if gp = Undefined then []
                 else reset_cursor r @ [Focus (js_plus gp (nodeSize (node p0)))])
          else []
      | _ \<Rightarrow> [])"

text \<open>
  The listener: four \<^verbatim>\<open>if\<close> statements on the key code, run one after the other. Only
  one of them can hold for a key, so an exception in one branch skips nothing.
\<close>

definition onKeyDown ::
  "props \<Rightarrow> props \<Rightarrow> editor_state \<Rightarrow> code_editor \<Rightarrow> refs \<Rightarrow> keycode \<Rightarrow>
   effect list" where
  "onKeyDown p0 p ed ei r k =
     (if k = DownArrow then onDownArrow p0 p ed ei r else []) @
     (if k = UpArrow then onUpOrLeftArrow p ei r else []) @
     (if k = LeftArrow then onUpOrLeftArrow p ei r else []) @
     (if k = RightArrow then onRightArrow p0 p ei r else [])"

definition handleEditorMount :: "props \<Rightarrow> refs \<Rightarrow> refs \<times> effect list" where
  "handleEditorMount p r =
     (r\<lparr>monacoInstance := True\<rparr>,
      if isFirstNode p then [SetTimeout FocusEditorInstance 100] else [])"

section \<open>The debounce helper\<close>

text \<open>
  The host's timers, with time in milliseconds. \<^verbatim>\<open>setTimeout\<close> hands out the ids
  \<open>next_id\<close>, \<open>next_id + 1\<close>, ...; a pending timer remembers when it is due, and its
  callback \<^verbatim>\<open>later\<close>: the closure of \<^verbatim>\<open>debounce\<close> that made it and the arguments it
  captured.
\<close>

record 'a timer =
  timer_id :: nat
  due :: nat
  owner :: nat
  later_args :: 'a

text \<open>
  The component and the host it runs on. Every call of \<^verbatim>\<open>debounce\<close> returns a new
  closure with a variable \<^verbatim>\<open>timeout\<close> of its own: \<open>timeouts c\<close> is the variable of
  closure \<open>c\<close>. The component body runs \<^verbatim>\<open>debounce\<close> on every render, and
  \<open>handler\<close> is the closure of the latest render, the one passed as \<^verbatim>\<open>onChange\<close>.
  \<open>func_calls\<close> logs the calls of \<^verbatim>\<open>func\<close>: when, and with which arguments.
\<close>

record 'a component =
  now :: nat
  next_id :: nat
  pending :: "'a timer list"
  timeouts :: "nat \<Rightarrow> nat option"
  handler :: nat
  func_calls :: "(nat \<times> 'a) list"

definition setTimeout :: "nat \<Rightarrow> 'a \<Rightarrow> nat \<Rightarrow> 'a component \<Rightarrow> nat \<times> 'a component" where
  "setTimeout c a wait s =
     (next_id s,
      s\<lparr> next_id := Suc (next_id s),
         pending := pending s @
           [\<lparr> timer_id = next_id s, due = now s + wait, owner = c, later_args = a \<rparr>] \<rparr>)"

definition clearTimeout :: "nat \<Rightarrow> 'a component \<Rightarrow> 'a component" where
  "clearTimeout i s = s\<lparr> pending := filter (\<lambda>tm. timer_id tm \<noteq> i) (pending s) \<rparr>"

text \<open>\<^verbatim>\<open>if (timeout) { clearTimeout(timeout); }\<close>: a timer id is truthy unless it is 0.\<close>

definition clear_if_set :: "nat \<Rightarrow> 'a component \<Rightarrow> 'a component" where
  "clear_if_set c s =
     (case timeouts s c of
        None \<Rightarrow> s
      | Some i \<Rightarrow> if i \<noteq> 0 then clearTimeout i s else s)"

text \<open>\<^verbatim>\<open>executedFunction(...args)\<close> of closure \<open>c\<close>.\<close>

definition executedFunction :: "nat \<Rightarrow> nat \<Rightarrow> 'a \<Rightarrow> 'a component \<Rightarrow> 'a component" where
  "executedFunction wait c a s =
     (let (i, s') = setTimeout c a wait (clear_if_set c s)
      in s'\<lparr> timeouts := (timeouts s')(c := Some i) \<rparr>)"

text \<open>The callback \<^verbatim>\<open>later\<close> of closure \<open>c\<close>: \<^verbatim>\<open>timeout = null; func(...args)\<close>.\<close>

definition later :: "nat \<Rightarrow> 'a \<Rightarrow> 'a component \<Rightarrow> 'a component" where
  "later c a s =
     s\<lparr> timeouts := (timeouts s)(c := None), func_calls := func_calls s @ [(now s, a)] \<rparr>"

text \<open>The host runs a timer that is still pending, at the time it is due.\<close>

definition fire :: "'a timer \<Rightarrow> 'a component \<Rightarrow> 'a component" where
  "fire tm s =
     (if tm \<in> set (pending s)
      then later (owner tm) (later_args tm)
             (s\<lparr> now := max (now s) (due tm), pending := removeAll tm (pending s) \<rparr>)
      else s)"

text \<open>Time passes until \<open>t\<close>: the timers due by then run, the earliest first.\<close>

definition advance :: "nat \<Rightarrow> 'a component \<Rightarrow> 'a component" where
  "advance t s =
     (let s' = fold fire (sort_key due (filter (\<lambda>tm. due tm \<le> t) (pending s))) s
      in s'\<lparr> now := max (now s') t \<rparr>)"

text \<open>
  A render runs the component body again:
  \<^verbatim>\<open>const handleEditorChange = debounce(..., 300)\<close> makes a new closure, whose
  \<^verbatim>\<open>timeout\<close> starts as \<^verbatim>\<open>null\<close>, and the code editor is given it as \<^verbatim>\<open>onChange\<close>.
\<close>

definition render_again :: "'a component \<Rightarrow> 'a component" where
  "render_again s =
     s\<lparr> handler := Suc (handler s), timeouts := (timeouts s)(Suc (handler s) := None) \<rparr>"

text \<open>What happens to the mounted component: it renders again, or the text changes.\<close>

datatype 'a event = Render | Change 'a

fun run :: "nat \<Rightarrow> (nat \<times> 'a event) list \<Rightarrow> 'a component \<Rightarrow> 'a component" where
  "run wait [] s = s"
| "run wait ((t, Render) # es) s = run wait es (render_again (advance t s))"
| "run wait ((t, Change a) # es) s =
     run wait es (executedFunction wait (handler s) a (advance t s))"

text \<open>The calls of the change handler among the events, each with its time.\<close>

fun calls_of :: "(nat \<times> 'a event) list \<Rightarrow> (nat \<times> 'a) list" where
  "calls_of [] = []"
| "calls_of ((t, Render) # es) = calls_of es"
| "calls_of ((t, Change a) # es) = (t, a) # calls_of es"

text \<open>Each call arrives less than \<open>wait\<close> after the previous one.\<close>

fun rapid :: "nat \<Rightarrow> (nat \<times> 'a) list \<Rightarrow> bool" where
  "rapid wait [] = True"
| "rapid wait [c] = True"
| "rapid wait (c # d # cs) = (fst c \<le> fst d \<and> fst d < fst c + wait \<and> rapid wait (d # cs))"

text \<open>The component after its first render.\<close>

definition init_component :: "'a component" where
  "init_component =
     \<lparr> now = 0, next_id = 1, pending = [], timeouts = (\<lambda>c. None), handler = 0,
       func_calls = [] \<rparr>"

text \<open>The component's change handler, with its wait of 300 ms, through a list of events.\<close>

definition handleEditorChange_events ::
  "(nat \<times> string option event) list \<Rightarrow> string option component" where
  "handleEditorChange_events es = run 300 es init_component"

section \<open>Sample inputs\<close>

definition sample_node :: pm_node where
  "sample_node =
     \<lparr> type_name = ''codeBlock'', node_attrs = [(''language'', JStr ''python'')],
       node_marks = [], textContent = ''x = 1'', nodeSize = 7 \<rparr>"

definition plain_node :: pm_node where
  "plain_node =
     \<lparr> type_name = ''codeBlock'', node_attrs = [], node_marks = [],
       textContent = ''x = 1'', nodeSize = 7 \<rparr>"

text \<open>A block at position \<open>n\<close>.\<close>

definition sample_props :: "int \<Rightarrow> props" where
  "sample_props n = \<lparr> node = sample_node, getPos = Function (Num n), selected = True \<rparr>"

definition plain_props :: props where
  "plain_props = \<lparr> node = plain_node, getPos = Function (Num 0), selected = False \<rparr>"

text \<open>A document of the given content size whose only known node starts at \<open>n\<close>.\<close>

definition sample_editor :: "int \<Rightarrow> int \<Rightarrow> editor_state" where
  "sample_editor n sz =
     \<lparr> nodeAt = (\<lambda>pos. if pos = Num n then Some sample_node else None), docSize = sz \<rparr>"

text \<open>A one-line model of five characters, and an editor with the cursor at a given place.\<close>

definition sample_model :: text_model where
  "sample_model = \<lparr> getLineCount = 1, getLineMaxColumn = (\<lambda>l. 6) \<rparr>"

definition sample_code_editor :: "int \<Rightarrow> int \<Rightarrow> code_editor" where
  "sample_code_editor l c =
     \<lparr> getModel = Some sample_model,
       getPosition = Some \<lparr> lineNumber = l, column = c \<rparr> \<rparr>"

text \<open>
  The same block after typing four more characters, and after deleting four: its size
  is 11, or 3. It is the last node of the document.
\<close>

definition grown_node :: pm_node where
  "grown_node = sample_node\<lparr> textContent := ''x = 1 + 2'', nodeSize := 11 \<rparr>"

definition shrunk_node :: pm_node where
  "shrunk_node = sample_node\<lparr> textContent := ''x'', nodeSize := 3 \<rparr>"

definition edited_props :: "pm_node \<Rightarrow> props" where
  "edited_props n = \<lparr> node = n, getPos = Function (Num 3), selected = True \<rparr>"

definition edited_editor :: "pm_node \<Rightarrow> editor_state" where
  "edited_editor n =
     \<lparr> nodeAt = (\<lambda>pos. if pos = Num 3 then Some n else None), docSize = 3 + nodeSize n \<rparr>"

text \<open>The code editor with a one-line text of \<open>k\<close> characters and the cursor at its end.\<close>

definition cursor_at_end :: "int \<Rightarrow> code_editor" where
  "cursor_at_end k =
     \<lparr> getModel = Some \<lparr> getLineCount = 1, getLineMaxColumn = (\<lambda>l. k + 1) \<rparr>,
       getPosition = Some \<lparr> lineNumber = 1, column = k + 1 \<rparr> \<rparr>"

definition mounted_refs :: refs where
  "mounted_refs =
     \<lparr> monacoInstance = True, isUpdatingRef = False, initialContentRef = ''x = 1'' \<rparr>"

text \<open>Two changes 100 ms apart, with and without a render between them.\<close>

definition typing_across_render :: "(nat \<times> string option event) list" where
  "typing_across_render = [(0, Change (Some ''a'')), (50, Render), (100, Change (Some ''ab''))]"

definition typing_in_one_render :: "(nat \<times> string option event) list" where
  "typing_in_one_render = [(0, Change (Some ''a'')), (100, Change (Some ''ab''))]"

section \<open>Boundary detection\<close>

text \<open>
  C3. \<open>isFirstNode\<close> is true exactly when \<open>getPos\<close> is a function whose result is
  defined and equal to 0. The DownArrow and RightArrow branches act (and consume the key
  event) exactly when the editor has a model and a cursor position, the cursor's line
  number is \<open>getLineCount\<close> of the model, and its column is \<open>getLineMaxColumn\<close> of that
  last line.
\<close>

theorem boundary_detection:
  "(isFirstNode p \<longleftrightarrow>
      (\<exists>pos. getPos p = Function pos \<and> pos \<noteq> Undefined \<and> pos = Num 0)) \<and>
   (PreventDefault \<in> set (onKeyDown p0 p ed ei r DownArrow) \<longleftrightarrow>
      (\<exists>m c. getModel ei = Some m \<and> getPosition ei = Some c \<and>
             lineNumber c = getLineCount m \<and>
             column c = getLineMaxColumn m (getLineCount m))) \<and>
   (PreventDefault \<in> set (onKeyDown p0 p ed ei r RightArrow) \<longleftrightarrow>
      (\<exists>m c. getModel ei = Some m \<and> getPosition ei = Some c \<and>
             lineNumber c = getLineCount m \<and>
             column c = getLineMaxColumn m (getLineCount m)))"
proof (intro conjI)
  show "isFirstNode p \<longleftrightarrow>
      (\<exists>pos. getPos p = Function pos \<and> pos \<noteq> Undefined \<and> pos = Num 0)"
    by (cases "getPos p") (simp_all add: isFirstNode_def)
next
  show "PreventDefault \<in> set (onKeyDown p0 p ed ei r DownArrow) \<longleftrightarrow>
      (\<exists>m c. getModel ei = Some m \<and> getPosition ei = Some c \<and>
             lineNumber c = getLineCount m \<and>
             column c = getLineMaxColumn m (getLineCount m))"
    by (cases "getModel ei"; cases "getPosition ei")
       (simp_all add: onKeyDown_def onDownArrow_def at_end_def Let_def)
next
  show "PreventDefault \<in> set (onKeyDown p0 p ed ei r RightArrow) \<longleftrightarrow>
      (\<exists>m c. getModel ei = Some m \<and> getPosition ei = Some c \<and>
             lineNumber c = getLineCount m \<and>
             column c = getLineMaxColumn m (getLineCount m))"
    by (cases "getModel ei"; cases "getPosition ei")
       (simp_all add: onKeyDown_def onRightArrow_def at_end_def Let_def)
qed

section \<open>Language selection\<close>

text \<open>
  C7. The language list holds exactly the thirteen languages javascript, typescript,
  html, css, json, python, java, csharp, php, ruby, go, rust, shell, in that order; it
  has no duplicate and covers every value of \<open>ProgrammingLanguage\<close>; the rendered
  options carry these strings as values and labels; and selecting a value calls
  \<open>updateAttributes\<close> with the language attribute set to that value.
\<close>

theorem language_selection:
  "map lang_string languages =
     [''javascript'', ''typescript'', ''html'', ''css'', ''json'', ''python'', ''java'',
      ''csharp'', ''php'', ''ruby'', ''go'', ''rust'', ''shell''] \<and>
   length languages = 13 \<and>
   distinct languages \<and>
   set languages = UNIV \<and>
   map opt_value (select_options (render p)) = map lang_string languages \<and>
   map opt_label (select_options (render p)) = map lang_string languages \<and>
   onLanguageChange v = [UpdateAttributes [(''language'', JStr v)]]"
proof -
  have every: "l \<in> set languages" for l
    by (cases l) (simp_all add: languages_def)
  have "set languages = UNIV"
    using every by blast
  moreover have "distinct languages"
    by (simp add: languages_def)
  moreover have "map lang_string languages =
     [''javascript'', ''typescript'', ''html'', ''css'', ''json'', ''python'', ''java'',
      ''csharp'', ''php'', ''ruby'', ''go'', ''rust'', ''shell'']"
    by (simp add: languages_def)
  moreover have "length languages = 13"
    by (simp add: languages_def)
  moreover have "map opt_value (select_options (render p)) = map lang_string languages"
    by (simp add: render_def comp_def)
  moreover have "map opt_label (select_options (render p)) = map lang_string languages"
    by (simp add: render_def comp_def)
  moreover have "onLanguageChange v = [UpdateAttributes [(''language'', JStr v)]]"
    by (simp add: onLanguageChange_def)
  ultimately show ?thesis by blast
qed

text \<open>
  C10. When the node's language attribute is absent or falsy, the selector shows
  javascript and the code editor is given javascript both as its language and as its
  default language; the rendering is the one of the same node with its language
  attribute set to javascript.
\<close>

theorem default_language:
  assumes "\<not> truthy (attr (node_attrs (node p)) ''language'')"
  shows "select_value (render p) = JStr ''javascript'' \<and>
         editor_language (render p) = JStr ''javascript'' \<and>
         editor_defaultLanguage (render p) = JStr ''javascript'' \<and>
         render p =
           render (p\<lparr>node := (node p)\<lparr>node_attrs :=
                     (''language'', JStr ''javascript'') # node_attrs (node p)\<rparr>\<rparr>)"
  using assms by (simp add: render_def language_def js_or_def attr_def)

theorem default_language_witness:
  "\<not> truthy (attr (node_attrs (node plain_props)) ''language'') \<and>
   select_value (render plain_props) = JStr ''javascript'' \<and>
   editor_language (render plain_props) = JStr ''javascript'' \<and>
   editor_defaultLanguage (render plain_props) = JStr ''javascript''"
proof -
  have h: "\<not> truthy (attr (node_attrs (node plain_props)) ''language'')"
    by (simp add: plain_props_def plain_node_def attr_def)
  show ?thesis
    using h default_language [OF h] by blast
qed

section \<open>Keyboard navigation out of the block\<close>

text \<open>
  C1. A DownArrow keydown with the cursor at the end of the last line should insert an
  empty paragraph after the block when the block ends the document. The listener takes
  the block's size from the node of the render in which the editor mounted. A block of
  size 7 at position 3 that has grown to size 11 and ends the document (content size 14):
  the listener computes the end position 10, sets the cursor to line 1, column 1 and
  focuses position 10, inside the block, and inserts nothing. The same block shrunk to
  size 3 (content size 6): the listener asks for an insertion at position 10, outside the
  document, which raises a RangeError, and nothing is dispatched.
\<close>

theorem down_arrow_stale_node:
  "js_ge (js_plus (Num 3) (nodeSize (node (edited_props grown_node))))
     (docSize (edited_editor grown_node)) \<and>
   onKeyDown (sample_props 3) (edited_props grown_node) (edited_editor grown_node)
     (cursor_at_end 9) mounted_refs DownArrow =
     [PreventDefault, StopPropagation,
      SetPosition \<lparr> lineNumber = 1, column = 1 \<rparr>, Focus (Num 10)] \<and>
   js_ge (js_plus (Num 3) (nodeSize (node (edited_props shrunk_node))))
     (docSize (edited_editor shrunk_node)) \<and>
   onKeyDown (sample_props 3) (edited_props shrunk_node) (edited_editor shrunk_node)
     (cursor_at_end 1) mounted_refs DownArrow =
     [PreventDefault, StopPropagation, Throw RangeError]"
  by (simp add: onKeyDown_def onDownArrow_def insertNodeAfter_def in_range_def at_end_def
        reset_cursor_def sample_props_def sample_node_def edited_props_def
        edited_editor_def grown_node_def shrunk_node_def cursor_at_end_def
        mounted_refs_def Let_def)

text \<open>
  C2. An UpArrow or LeftArrow keydown on a mounted editor. With the cursor at line 1,
  column 1 and \<open>getPos\<close> giving a position: when the block is the first node, an empty
  paragraph is inserted at \<open>getPos()\<close> in one dispatched transaction and focus goes to
  that position; otherwise nothing is dispatched and focus goes to \<open>getPos()\<close>. With the
  cursor anywhere else (or no cursor), the keydown has no effect at all.
\<close>

theorem up_left_arrow_at_start:
  assumes "k = UpArrow \<or> k = LeftArrow"
  shows "(getModel ei = Some m \<and> getPosition ei = Some c \<and>
          lineNumber c = 1 \<and> column c = 1 \<and>
          getPos p = Function gp \<and> gp \<noteq> Undefined \<and> monacoInstance r \<longrightarrow>
          onKeyDown p0 p ed ei r k =
            (if isFirstNode p
             then [PreventDefault, StopPropagation,
                   Dispatch [Insert gp paragraph_create], Focus gp]
             else [PreventDefault, StopPropagation,
                   SetPosition \<lparr> lineNumber = 1, column = 1 \<rparr>, Focus gp])) \<and>
         (\<not> (\<exists>m' c'. getModel ei = Some m' \<and> getPosition ei = Some c' \<and>
                      lineNumber c' = 1 \<and> column c' = 1) \<longrightarrow>
          onKeyDown p0 p ed ei r k = [])"
proof -
  have body: "onKeyDown p0 p ed ei r k = onUpOrLeftArrow p ei r"
    using assms by (auto simp: onKeyDown_def)
  have first: "onUpOrLeftArrow p ei r =
            (if isFirstNode p
             then [PreventDefault, StopPropagation,
                   Dispatch [Insert gp paragraph_create], Focus gp]
             else [PreventDefault, StopPropagation,
                   SetPosition \<lparr> lineNumber = 1, column = 1 \<rparr>, Focus gp])"
    if "getModel ei = Some m" "getPosition ei = Some c" "lineNumber c = 1" "column c = 1"
      "getPos p = Function gp" "gp \<noteq> Undefined" "monacoInstance r"
    using that
    by (simp add: onUpOrLeftArrow_def insertNodeBefore_def reset_cursor_def)
  have other: "onUpOrLeftArrow p ei r = []"
    if "\<not> (\<exists>m' c'. getModel ei = Some m' \<and> getPosition ei = Some c' \<and>
                      lineNumber c' = 1 \<and> column c' = 1)"
    using that
    by (cases "getModel ei"; cases "getPosition ei") (auto simp: onUpOrLeftArrow_def)
  show ?thesis
    using body first other by presburger
qed

theorem up_left_arrow_at_start_witness:
  "onKeyDown (sample_props 0) (sample_props 0) (sample_editor 0 25) (sample_code_editor 1 1)
     mounted_refs UpArrow =
     [PreventDefault, StopPropagation,
      Dispatch [Insert (Num 0) (NodeCreate ''paragraph'' None None None)], Focus (Num 0)] \<and>
   onKeyDown (sample_props 3) (sample_props 3) (sample_editor 3 25) (sample_code_editor 1 1)
     mounted_refs LeftArrow =
     [PreventDefault, StopPropagation,
      SetPosition \<lparr> lineNumber = 1, column = 1 \<rparr>, Focus (Num 3)] \<and>
   onKeyDown (sample_props 0) (sample_props 0) (sample_editor 0 25) (sample_code_editor 1 4)
     mounted_refs LeftArrow = []"
proof -
  have a: "getModel (sample_code_editor 1 1) = Some sample_model \<and>
           getPosition (sample_code_editor 1 1) = Some \<lparr> lineNumber = 1, column = 1 \<rparr> \<and>
           lineNumber \<lparr> lineNumber = 1, column = 1 \<rparr> = 1 \<and>
           column \<lparr> lineNumber = 1, column = 1 \<rparr> = 1 \<and>
           getPos (sample_props n) = Function (Num n) \<and> Num n \<noteq> Undefined \<and>
           monacoInstance mounted_refs" for n
    by (simp add: sample_code_editor_def sample_props_def mounted_refs_def)
  have b: "\<not> (\<exists>m' c'. getModel (sample_code_editor 1 4) = Some m' \<and>
                getPosition (sample_code_editor 1 4) = Some c' \<and>
                lineNumber c' = 1 \<and> column c' = 1)"
    by (auto simp: sample_code_editor_def)
  have "onKeyDown (sample_props 0) (sample_props 0) (sample_editor 0 25)
          (sample_code_editor 1 1) mounted_refs UpArrow =
        (if isFirstNode (sample_props 0)
         then [PreventDefault, StopPropagation,
               Dispatch [Insert (Num 0) paragraph_create], Focus (Num 0)]
         else [PreventDefault, StopPropagation,
               SetPosition \<lparr> lineNumber = 1, column = 1 \<rparr>, Focus (Num 0)])"
    using up_left_arrow_at_start [where k = UpArrow and ei = "sample_code_editor 1 1"
        and m = sample_model and c = "\<lparr> lineNumber = 1, column = 1 \<rparr>"
        and p = "sample_props 0" and gp = "Num 0" and r = mounted_refs
        and p0 = "sample_props 0" and ed = "sample_editor 0 25"] a [of 0]
    by blast
  moreover have "onKeyDown (sample_props 3) (sample_props 3) (sample_editor 3 25)
          (sample_code_editor 1 1) mounted_refs LeftArrow =
        (if isFirstNode (sample_props 3)
         then [PreventDefault, StopPropagation,
               Dispatch [Insert (Num 3) paragraph_create], Focus (Num 3)]
         else [PreventDefault, StopPropagation,
               SetPosition \<lparr> lineNumber = 1, column = 1 \<rparr>, Focus (Num 3)])"
    using up_left_arrow_at_start [where k = LeftArrow and ei = "sample_code_editor 1 1"
        and m = sample_model and c = "\<lparr> lineNumber = 1, column = 1 \<rparr>"
        and p = "sample_props 3" and gp = "Num 3" and r = mounted_refs
        and p0 = "sample_props 3" and ed = "sample_editor 3 25"] a [of 3]
    by blast
  moreover have "onKeyDown (sample_props 0) (sample_props 0) (sample_editor 0 25)
          (sample_code_editor 1 4) mounted_refs LeftArrow = []"
    using up_left_arrow_at_start [where k = LeftArrow and ei = "sample_code_editor 1 4"
        and p = "sample_props 0" and r = mounted_refs
        and p0 = "sample_props 0" and ed = "sample_editor 0 25"] b
    by blast
  ultimately show ?thesis
    by (simp add: isFirstNode_def sample_props_def paragraph_create_def)
qed

text \<open>
  C4. A RightArrow keydown with the cursor at the end of the last line should move focus
  out of the block, to \<open>getPos() + node.nodeSize\<close>. The listener takes the size from the
  node of the render in which the editor mounted: for a block of size 7 at position 3
  that has grown to size 11, so that it ends at 14, it sets the cursor to line 1,
  column 1 and focuses position 10, inside the block. No RightArrow keydown dispatches a
  transaction.
\<close>

theorem right_arrow_stale_node:
  "js_plus (Num 3) (nodeSize (node (edited_props grown_node))) = Num 14 \<and>
   onKeyDown (sample_props 3) (edited_props grown_node) (edited_editor grown_node)
     (cursor_at_end 9) mounted_refs RightArrow =
     [PreventDefault, StopPropagation,
      SetPosition \<lparr> lineNumber = 1, column = 1 \<rparr>, Focus (Num 10)] \<and>
   dispatched (onKeyDown p0 p ed ei r RightArrow) = []"
proof (intro conjI)
  show "js_plus (Num 3) (nodeSize (node (edited_props grown_node))) = Num 14"
    by (simp add: edited_props_def grown_node_def)
next
  show "onKeyDown (sample_props 3) (edited_props grown_node) (edited_editor grown_node)
     (cursor_at_end 9) mounted_refs RightArrow =
     [PreventDefault, StopPropagation,
      SetPosition \<lparr> lineNumber = 1, column = 1 \<rparr>, Focus (Num 10)]"
    by (simp add: onKeyDown_def onRightArrow_def at_end_def reset_cursor_def
          sample_props_def sample_node_def edited_props_def cursor_at_end_def
          mounted_refs_def Let_def)
next
  show "dispatched (onKeyDown p0 p ed ei r RightArrow) = []"
    by (cases "getModel ei"; cases "getPosition ei"; cases "getPos p")
       (simp_all add: onKeyDown_def onRightArrow_def reset_cursor_def)
qed

section \<open>Deleting the block\<close>

text \<open>
  C5. The delete button, with \<open>getPos\<close> a function giving \<open>pos\<close>: when the document has
  a node at \<open>pos\<close>, the handler dispatches exactly one transaction, whose only step
  deletes from \<open>pos\<close> to \<open>pos\<close> plus that node's size; when it has none, the handler does
  nothing, so the document is the same afterwards.
\<close>

theorem handleDelete_range:
  assumes "getPos p = Function pos"
  shows "(nodeAt ed pos = Some nodeAtPos \<longrightarrow>
            handleDelete p ed =
              [Dispatch [Delete pos (js_plus pos (nodeSize nodeAtPos))]] \<and>
            dispatched (handleDelete p ed) =
              [[Delete pos (js_plus pos (nodeSize nodeAtPos))]]) \<and>
         (nodeAt ed pos = None \<longrightarrow>
            handleDelete p ed = [] \<and> doc_after app (handleDelete p ed) d = d)"
  using assms by (simp add: handleDelete_def doc_after_def)

theorem handleDelete_range_witness:
  "handleDelete (sample_props 3) (sample_editor 3 25) =
     [Dispatch [Delete (Num 3) (Num 10)]] \<and>
   dispatched (handleDelete (sample_props 3) (sample_editor 3 25)) =
     [[Delete (Num 3) (Num 10)]] \<and>
   handleDelete (sample_props 3) (sample_editor 0 25) = [] \<and>
   doc_after (\<lambda>tr n. n + length tr) (handleDelete (sample_props 3) (sample_editor 0 25))
     (5::nat) = 5"
proof -
  have g: "getPos (sample_props 3) = Function (Num 3)"
    by (simp add: sample_props_def)
  have n: "nodeAt (sample_editor 3 25) (Num 3) = Some sample_node"
    and e: "nodeAt (sample_editor 0 25) (Num 3) = None"
    by (simp_all add: sample_editor_def)
  show ?thesis
    using handleDelete_range [OF g, of "sample_editor 3 25" sample_node] n
      handleDelete_range [OF g, of "sample_editor 0 25" _ "\<lambda>tr n. n + length tr" "5::nat"] e
    by (simp add: sample_node_def doc_after_def)
qed

section \<open>Writing the editor's content back\<close>

lemma updateContent_dispatchD:
  assumes "Dispatch tr \<in> set (snd (updateContent p ed r v))"
  shows "\<exists>pos originalNode str.
           str \<noteq> [] \<and> \<not> isUpdatingRef r \<and>
           getPos p = Function pos \<and> nodeAt ed pos = Some originalNode \<and>
           v = Some str \<and>
           tr = [ReplaceWith pos (js_plus pos (nodeSize originalNode))
                   (NodeCreate (type_name originalNode)
                      (Some (node_attrs originalNode))
                      (Some (TextFromJSON str))
                      (Some (node_marks originalNode)))]"
proof (cases v)
  case None
  with assms show ?thesis
    by (simp add: updateContent_def)
next
  case (Some str)
  show ?thesis
  proof (cases "getPos p")
    case NotFunction
    with assms Some show ?thesis
      by (simp add: updateContent_def finally_block_def split: if_splits)
  next
    case (Function pos)
    show ?thesis
    proof (cases "nodeAt ed pos")
      case None
      with assms Some Function show ?thesis
        by (simp add: updateContent_def finally_block_def split: if_splits)
    next
      case (Some originalNode)
      with assms \<open>v = Some str\<close> Function show ?thesis
        by (simp add: updateContent_def finally_block_def split: if_splits)
    qed
  qed
qed

text \<open>
  C8. Whenever the update function dispatches a transaction, that transaction is a
  single replacement of the range of the node found at \<open>getPos()\<close>, by a node created
  with that node's type name, its attributes and its marks, and with one text child made
  from the editor's value.
\<close>

theorem updateContent_frame:
  assumes "Dispatch tr \<in> set (snd (updateContent p ed r v))"
  shows "\<exists>pos originalNode str.
           getPos p = Function pos \<and> nodeAt ed pos = Some originalNode \<and>
           v = Some str \<and>
           tr = [ReplaceWith pos (js_plus pos (nodeSize originalNode))
                   (NodeCreate (type_name originalNode)
                      (Some (node_attrs originalNode))
                      (Some (TextFromJSON str))
                      (Some (node_marks originalNode)))]"
  using updateContent_dispatchD [OF assms] by blast

theorem updateContent_frame_witness:
  "snd (updateContent (sample_props 3) (sample_editor 3 25) mounted_refs (Some ''y = 2'')) =
     [Dispatch
        [ReplaceWith (Num 3) (Num 10)
           (NodeCreate ''codeBlock'' (Some [(''language'', JStr ''python'')])
              (Some (TextFromJSON ''y = 2'')) (Some []))],
      SetTimeout ResetIsUpdating 0] \<and>
   (\<exists>pos originalNode str.
      getPos (sample_props 3) = Function pos \<and>
      nodeAt (sample_editor 3 25) pos = Some originalNode \<and>
      Some ''y = 2'' = Some str \<and>
      [ReplaceWith (Num 3) (Num 10)
         (NodeCreate ''codeBlock'' (Some [(''language'', JStr ''python'')])
            (Some (TextFromJSON ''y = 2'')) (Some []))] =
      [ReplaceWith pos (js_plus pos (nodeSize originalNode))
         (NodeCreate (type_name originalNode) (Some (node_attrs originalNode))
            (Some (TextFromJSON str)) (Some (node_marks originalNode)))])"
proof -
  have run: "snd (updateContent (sample_props 3) (sample_editor 3 25) mounted_refs
                (Some ''y = 2'')) =
     [Dispatch
        [ReplaceWith (Num 3) (Num 10)
           (NodeCreate ''codeBlock'' (Some [(''language'', JStr ''python'')])
              (Some (TextFromJSON ''y = 2'')) (Some []))],
      SetTimeout ResetIsUpdating 0]"
    by (simp add: updateContent_def sample_props_def sample_editor_def sample_node_def
          mounted_refs_def finally_block_def)
  then have "Dispatch
        [ReplaceWith (Num 3) (Num 10)
           (NodeCreate ''codeBlock'' (Some [(''language'', JStr ''python'')])
              (Some (TextFromJSON ''y = 2'')) (Some []))]
      \<in> set (snd (updateContent (sample_props 3) (sample_editor 3 25) mounted_refs
                (Some ''y = 2'')))"
    by simp
  from updateContent_frame [OF this] run show ?thesis
    by blast
qed

text \<open>
  C9. When the update function is called with no value or with the empty string, or
  while \<open>isUpdatingRef\<close> is set, it does nothing at all; when no node is found at
  \<open>getPos()\<close>, it dispatches nothing. In each case the document is the same afterwards.
  In particular an emptied code editor is never written back: no replacement the update
  function dispatches has an empty text child.
\<close>

theorem updateContent_guards:
  "(falsy_value v \<or> isUpdatingRef r \<longrightarrow> updateContent p ed r v = (r, [])) \<and>
   (falsy_value v \<or> isUpdatingRef r \<or>
      (\<exists>pos. getPos p = Function pos \<and> nodeAt ed pos = None) \<longrightarrow>
      dispatched (snd (updateContent p ed r v)) = [] \<and>
      doc_after app (snd (updateContent p ed r v)) d = d) \<and>
   updateContent p ed r (Some []) = (r, []) \<and>
   (\<forall>tr a b n. Dispatch tr \<in> set (snd (updateContent p ed r v)) \<and>
                ReplaceWith a b n \<in> set tr \<longrightarrow>
                (\<exists>ty at str mk. n = NodeCreate ty at (Some (TextFromJSON str)) mk \<and>
                                 str \<noteq> []))"
proof (intro conjI allI impI)
  assume "falsy_value v \<or> isUpdatingRef r"
  then show "updateContent p ed r v = (r, [])"
    by (auto simp: updateContent_def)
next
  assume a: "falsy_value v \<or> isUpdatingRef r \<or>
      (\<exists>pos. getPos p = Function pos \<and> nodeAt ed pos = None)"
  then show "dispatched (snd (updateContent p ed r v)) = []"
    by (auto simp: updateContent_def finally_block_def)
  then show "doc_after app (snd (updateContent p ed r v)) d = d"
    by (simp add: doc_after_def)
next
  show "updateContent p ed r (Some []) = (r, [])"
    by (simp add: updateContent_def)
next
  fix tr a b n
  assume h: "Dispatch tr \<in> set (snd (updateContent p ed r v)) \<and> ReplaceWith a b n \<in> set tr"
  then have d: "Dispatch tr \<in> set (snd (updateContent p ed r v))"
    and m: "ReplaceWith a b n \<in> set tr"
    by simp_all
  from updateContent_dispatchD [OF d]
  obtain pos and originalNode :: pm_node and str where ne: "str \<noteq> []"
    and tr: "tr = [ReplaceWith pos (js_plus pos (nodeSize originalNode))
                   (NodeCreate (type_name originalNode)
                      (Some (node_attrs originalNode))
                      (Some (TextFromJSON str))
                      (Some (node_marks originalNode)))]"
    by blast
  from m tr have "n = NodeCreate (type_name originalNode) (Some (node_attrs originalNode))
                      (Some (TextFromJSON str)) (Some (node_marks originalNode))"
    by simp
  with ne show "\<exists>ty at str mk. n = NodeCreate ty at (Some (TextFromJSON str)) mk \<and>
                    str \<noteq> []"
    by blast
qed

theorem updateContent_guards_witness:
  "updateContent (sample_props 3) (sample_editor 3 25) mounted_refs None =
     (mounted_refs, []) \<and>
   updateContent (sample_props 3) (sample_editor 3 25) mounted_refs (Some []) =
     (mounted_refs, []) \<and>
   updateContent (sample_props 3) (sample_editor 3 25)
     (mounted_refs\<lparr>isUpdatingRef := True\<rparr>) (Some ''y = 2'') =
     (mounted_refs\<lparr>isUpdatingRef := True\<rparr>, []) \<and>
   dispatched (snd (updateContent (sample_props 3) (sample_editor 0 25) mounted_refs
     (Some ''y = 2''))) = [] \<and>
   doc_after (\<lambda>tr n. n + length tr)
     (snd (updateContent (sample_props 3) (sample_editor 0 25) mounted_refs
        (Some ''y = 2''))) (5::nat) = 5"
proof -
  have a: "falsy_value None \<or> isUpdatingRef mounted_refs"
    and a': "falsy_value (Some ''y = 2'') \<or>
            isUpdatingRef (mounted_refs\<lparr>isUpdatingRef := True\<rparr>)"
    by simp_all
  have c: "falsy_value (Some ''y = 2'') \<or> isUpdatingRef mounted_refs \<or>
           (\<exists>pos. getPos (sample_props 3) = Function pos \<and>
                  nodeAt (sample_editor 0 25) pos = None)"
    by (simp add: sample_props_def sample_editor_def)
  note none = updateContent_guards [where v = None and r = mounted_refs
        and p = "sample_props 3" and ed = "sample_editor 3 25",
        THEN conjunct1, THEN mp, OF a]
  note empty = updateContent_guards [where r = mounted_refs
        and p = "sample_props 3" and ed = "sample_editor 3 25",
        THEN conjunct2, THEN conjunct2, THEN conjunct1]
  note busy = updateContent_guards [where v = "Some ''y = 2''"
        and r = "mounted_refs\<lparr>isUpdatingRef := True\<rparr>" and p = "sample_props 3"
        and ed = "sample_editor 3 25", THEN conjunct1, THEN mp, OF a']
  note missing = updateContent_guards [where v = "Some ''y = 2''" and r = mounted_refs
        and p = "sample_props 3" and ed = "sample_editor 0 25"
        and app = "\<lambda>tr n. n + length tr" and d = "5::nat",
        THEN conjunct2, THEN conjunct1, THEN mp, OF c]
  show ?thesis
    by (intro conjI) (rule none, rule empty, rule busy,
      rule missing [THEN conjunct1], rule missing [THEN conjunct2])
qed

section \<open>The debounced change handler\<close>

text \<open>
  C6. Calls of the change handler less than 300 ms apart should leave one invocation
  pending and run the update function once, with the last arguments. The component makes
  a new closure of \<open>debounce\<close> on every render. Two changes at 0 ms and 100 ms with a
  render between them: the second call does not cancel the timer of the first, two
  timers are pending (due at 300 ms and 400 ms), and the update function runs twice,
  first with the value of the first call. Without the render between them, the second
  call cancels the first timer and the update function runs once, at 400 ms, with the
  value of the second call.
\<close>

theorem debounce_across_renders:
  "calls_of typing_across_render = [(0, Some ''a''), (100, Some ''ab'')] \<and>
   rapid 300 (calls_of typing_across_render) \<and>
   map (\<lambda>tm. (owner tm, due tm, later_args tm))
     (pending (handleEditorChange_events typing_across_render)) =
     [(0, 300, Some ''a''), (1, 400, Some ''ab'')] \<and>
   func_calls (advance 400 (handleEditorChange_events typing_across_render)) =
     [(300, Some ''a''), (400, Some ''ab'')] \<and>
   map (\<lambda>tm. (owner tm, due tm, later_args tm))
     (pending (handleEditorChange_events typing_in_one_render)) =
     [(0, 400, Some ''ab'')] \<and>
   func_calls (advance 400 (handleEditorChange_events typing_in_one_render)) =
     [(400, Some ''ab'')]"
proof -
  let ?first = "\<lparr> timer_id = 1, due = 300, owner = 0, later_args = Some ''a'' \<rparr>"
  let ?second = "\<lparr> timer_id = 2, due = 400, owner = 1, later_args = Some ''ab'' \<rparr>"
  let ?only = "\<lparr> timer_id = 2, due = 400, owner = 0, later_args = Some ''ab'' \<rparr>"
  have two: "pending (handleEditorChange_events typing_across_render) = [?first, ?second]"
    and n2: "now (handleEditorChange_events typing_across_render) = 100"
    and f2: "func_calls (handleEditorChange_events typing_across_render) = []"
    by (simp_all add: handleEditorChange_events_def typing_across_render_def
          init_component_def advance_def executedFunction_def setTimeout_def
          clear_if_set_def clearTimeout_def render_again_def)
  have one: "pending (handleEditorChange_events typing_in_one_render) = [?only]"
    and n1: "now (handleEditorChange_events typing_in_one_render) = 100"
    and f1: "func_calls (handleEditorChange_events typing_in_one_render) = []"
    by (simp_all add: handleEditorChange_events_def typing_in_one_render_def
          init_component_def advance_def executedFunction_def setTimeout_def
          clear_if_set_def clearTimeout_def)
  have twice: "func_calls (advance 400 (handleEditorChange_events typing_across_render)) =
     [(300, Some ''a''), (400, Some ''ab'')]"
    by (simp add: advance_def two n2 f2 fire_def later_def)
  have once: "func_calls (advance 400 (handleEditorChange_events typing_in_one_render)) =
     [(400, Some ''ab'')]"
    by (simp add: advance_def one n1 f1 fire_def later_def)
  show ?thesis
    by (simp add: two one twice once) (simp add: typing_across_render_def)
qed

end
